theory Spec2Isabelle
  imports Complex_Main "HOL-Library.AList" "HOL-Library.Sublist"
begin

section \<open>The environment of the indexer\<close>

text \<open>
  The indexer reads the file system, asks two Chroma collections and calls the document
  loaders and the text splitter of langchain. None of them is code of the repository, so
  the model takes them from a record \<open>world\<close>, which a call only reads. An exception is
  the message it carries (\<open>str(e)\<close>); a call that may raise returns \<open>string + 'a\<close>, with
  \<open>Inl\<close> for the exception.
\<close>

datatype fkind = Regular | Directory | Special

record fentry =
  kind :: fkind
  st_size :: nat
  st_mtime :: rat
  data :: "string option"  \<comment> \<open>\<open>None\<close>: opening or reading the file raises \<open>IOError\<close>\<close>

datatype mval = Str string | Num int

record document =
  page_content :: string
  metadata :: "(string \<times> mval) list"

record world =
  fs :: "string \<Rightarrow> fentry option"  \<comment> \<open>\<open>None\<close>: the path does not exist\<close>
  abspath :: "string \<Rightarrow> string"
  glob :: "string \<Rightarrow> string list"
  md5 :: "string \<Rightarrow> nat"  \<comment> \<open>the 128-bit digest, as a number\<close>
  now :: rat  \<comment> \<open>\<open>time.time()\<close>\<close>
  meta_fault :: "string option"  \<comment> \<open>\<open>Some e\<close>: the calls of the metadata collection raise \<open>e\<close>\<close>
  vec_fault :: "string option"  \<comment> \<open>\<open>Some e\<close>: the calls of the document collection raise \<open>e\<close>\<close>
  include_error :: string  \<comment> \<open>the \<open>ValueError\<close> of Chroma for an item of \<open>include\<close> it does not allow\<close>
  empty_add_error :: string  \<comment> \<open>the \<open>ValueError\<close> of Chroma for an \<open>add\<close> of empty lists\<close>
  load_pdf_docs :: "string \<Rightarrow> string + document list"
  load_text_docs :: "string \<Rightarrow> string + document list"
  split_documents :: "document list \<Rightarrow> string + document list"

section \<open>The state: two collections and the console\<close>

text \<open>
  A file's metadata is the dict that \<open>get_file_metadata\<close> builds; the keys
  \<open>content_hash\<close> and \<open>chunk_count\<close> are not always present, so they are options.
\<close>

record file_metadata =
  file_id :: string
  file_path :: string
  file_name :: string
  size_b :: nat
  mtime :: rat
  extension :: string
  indexed_at :: rat
  content_hash :: "string option"
  chunk_count :: "nat option"

record chunk =
  chunk_uuid :: nat  \<comment> \<open>\<open>uuid.uuid4()\<close>, a fresh identifier\<close>
  chunk_text :: string
  chunk_meta :: "(string \<times> mval) list"

datatype level = PLAIN | INFO | SUCCESS | WARNING | ERROR | HEADER

record state =
  metadata_collection :: "(string \<times> file_metadata) list"  \<comment> \<open>collection \<open>file_metadata\<close>, by id\<close>
  collection :: "chunk list"  \<comment> \<open>the document collection of the vector store\<close>
  next_uuid :: nat
  out :: "(level \<times> string) list"  \<comment> \<open>what was printed, oldest first\<close>

definition print :: "level \<Rightarrow> string \<Rightarrow> state \<Rightarrow> state" where
  "print l msg s = s\<lparr>out := out s @ [(l, msg)]\<rparr>"

definition digit_char :: "nat \<Rightarrow> char" where
  "digit_char d = ''0123456789abcdef'' ! d"

function str_nat :: "nat \<Rightarrow> string" where
  "str_nat n = (if n < 10 then [digit_char n] else str_nat (n div 10) @ [digit_char (n mod 10)])"
  by pat_completeness auto
termination
  by (relation "measure id") auto

declare str_nat.simps [simp del]

section \<open>Paths and digests\<close>

definition basename :: "string \<Rightarrow> string" where
  "basename p = rev (takeWhile (\<lambda>c. c \<noteq> CHR ''/'') (rev p))"

definition lower_char :: "char \<Rightarrow> char" where
  "lower_char c = (let n = (of_char c :: nat) in if 65 \<le> n \<and> n \<le> 90 then char_of (n + 32) else c)"

definition lower :: "string \<Rightarrow> string" where
  "lower s = map lower_char s"

text \<open>
  \<open>os.path.splitext(p)[1]\<close>: the text from the last dot of the last component on, unless
  only dots come before it there.
\<close>

definition splitext_ext :: "string \<Rightarrow> string" where
  "splitext_ext p =
     (let b = basename p;
          suf = rev (takeWhile (\<lambda>c. c \<noteq> CHR ''.'') (rev b));
          stem = take (length b - length suf - 1) b
      in if List.member b (CHR ''.'') \<and> list_ex (\<lambda>c. c \<noteq> CHR ''.'') stem
         then CHR ''.'' # suf else [])"

definition endswith :: "string \<Rightarrow> string \<Rightarrow> bool" where
  "endswith s suf = (length suf \<le> length s \<and> drop (length s - length suf) s = suf)"

definition os_path_join :: "string \<Rightarrow> string \<Rightarrow> string" where
  "os_path_join a b =
     (if b \<noteq> [] \<and> hd b = CHR ''/'' then b
      else if a = [] \<or> last a = CHR ''/'' then a @ b
      else a @ ''/'' @ b)"

text \<open>\<open>hexdigest()\<close>: the 128 bits as 32 lower-case hexadecimal digits.\<close>

fun hexdigits :: "nat \<Rightarrow> nat \<Rightarrow> string" where
  "hexdigits 0 n = []"
| "hexdigits (Suc k) n = hexdigits k (n div 16) @ [digit_char (n mod 16)]"

definition hexdigest :: "nat \<Rightarrow> string" where
  "hexdigest n = hexdigits 32 n"

section \<open>FileTracker\<close>

definition generate_file_id :: "world \<Rightarrow> string \<Rightarrow> string" where
  "generate_file_id w p = hexdigest (md5 w (abspath w p))"

text \<open>
  \<open>get_file_hash\<close> feeds the file to the digest in blocks of 4096 bytes, which is the
  digest of the whole content; an \<open>IOError\<close> gives the empty string.
\<close>

definition get_file_hash :: "world \<Rightarrow> string \<Rightarrow> string" where
  "get_file_hash w p =
     (case fs w p of
        None \<Rightarrow> []
      | Some e \<Rightarrow> (case data e of None \<Rightarrow> [] | Some d \<Rightarrow> hexdigest (md5 w d)))"

definition get_file_metadata :: "world \<Rightarrow> string \<Rightarrow> bool \<Rightarrow> file_metadata option" where
  "get_file_metadata w p include_hash =
     (case fs w p of
        None \<Rightarrow> None
      | Some e \<Rightarrow>
          Some \<lparr>file_id = generate_file_id w p,
                file_path = abspath w p,
                file_name = basename p,
                size_b = st_size e,
                mtime = st_mtime e,
                extension = lower (splitext_ext p),
                indexed_at = now w,
                content_hash = (if include_hash then Some (get_file_hash w p) else None),
                chunk_count = None\<rparr>)"

datatype status = New | Modified | Unchanged | Not_found

text \<open>\<open>metadata_collection.get(ids=[file_id])\<close>: the stored metadata of that id, if any.\<close>

definition meta_get :: "world \<Rightarrow> state \<Rightarrow> string \<Rightarrow> string + file_metadata option" where
  "meta_get w s fid =
     (case meta_fault w of Some e \<Rightarrow> Inl e | None \<Rightarrow> Inr (map_of (metadata_collection s) fid))"

text \<open>
  The body of the \<open>try\<close> of \<open>is_file_modified\<close>. Beside the answer it lists the checks it
  made, in the order the statements run; \<open>Check_hash\<close> stands for the call of
  \<open>get_file_hash\<close>, which reads the whole file.
\<close>

datatype check = Check_record | Check_mtime | Check_size | Check_hash

definition is_file_modified_try ::
  "world \<Rightarrow> state \<Rightarrow> string \<Rightarrow> file_metadata \<Rightarrow> string + (check list \<times> bool \<times> status)" where
  "is_file_modified_try w s p current_metadata =
     (case meta_get w s (file_id current_metadata) of
        Inl e \<Rightarrow> Inl e
      | Inr None \<Rightarrow> Inr ([Check_record], True, New)
      | Inr (Some stored_metadata) \<Rightarrow>
          if mtime current_metadata \<noteq> mtime stored_metadata
          then Inr ([Check_record, Check_mtime], True, Modified)
          else if size_b current_metadata \<noteq> size_b stored_metadata
          then Inr ([Check_record, Check_mtime, Check_size], True, Modified)
          else if Some (get_file_hash w p) \<noteq> content_hash stored_metadata
          then Inr ([Check_record, Check_mtime, Check_size, Check_hash], True, Modified)
          else Inr ([Check_record, Check_mtime, Check_size, Check_hash], False, Unchanged))"

definition is_file_modified_checks :: "world \<Rightarrow> state \<Rightarrow> string \<Rightarrow> check list" where
  "is_file_modified_checks w s p =
     (case get_file_metadata w p False of
        None \<Rightarrow> []
      | Some current_metadata \<Rightarrow>
          (case is_file_modified_try w s p current_metadata of
             Inl e \<Rightarrow> [Check_record]
           | Inr r \<Rightarrow> fst r))"

definition is_file_modified :: "world \<Rightarrow> state \<Rightarrow> string \<Rightarrow> state \<times> bool \<times> status" where
  "is_file_modified w s p =
     (case get_file_metadata w p False of
        None \<Rightarrow> (s, False, Not_found)
      | Some current_metadata \<Rightarrow>
          (case is_file_modified_try w s p current_metadata of
             Inl e \<Rightarrow> (print WARNING (''Error checking file metadata: '' @ e) s, True, New)
           | Inr r \<Rightarrow> (s, snd r)))"

text \<open>
  \<open>store_file_metadata\<close>: Chroma's \<open>update\<close> replaces the metadata of an id in place and
  \<open>add\<close> appends a new id; the stored document is the \<open>file_path\<close> of the metadata.
\<close>

definition store_file_metadata :: "world \<Rightarrow> state \<Rightarrow> string \<Rightarrow> nat \<Rightarrow> state \<times> bool" where
  "store_file_metadata w s p n =
     (case get_file_metadata w p True of
        None \<Rightarrow> (s, False)
      | Some m \<Rightarrow>
          (let metadata = m\<lparr>chunk_count := Some n\<rparr> in
           case meta_get w s (file_id metadata) of
             Inl e \<Rightarrow> (print ERROR (''Error storing file metadata: '' @ e) s, False)
           | Inr (Some old) \<Rightarrow>
               (print INFO (''Updated metadata for: '' @ file_name metadata)
                  (s\<lparr>metadata_collection :=
                       AList.update (file_id metadata) metadata (metadata_collection s)\<rparr>), True)
           | Inr None \<Rightarrow>
               (print INFO (''Added metadata for: '' @ file_name metadata)
                  (s\<lparr>metadata_collection :=
                       metadata_collection s @ [(file_id metadata, metadata)]\<rparr>), True)))"

definition get_file_chunk_count :: "world \<Rightarrow> state \<Rightarrow> string \<Rightarrow> nat" where
  "get_file_chunk_count w s p =
     (case meta_get w s (generate_file_id w p) of
        Inl e \<Rightarrow> 0
      | Inr None \<Rightarrow> 0
      | Inr (Some m) \<Rightarrow> (case chunk_count m of None \<Rightarrow> 0 | Some n \<Rightarrow> n))"

text \<open>\<open>metadata_collection.delete(ids=[file_id])\<close>\<close>

definition meta_delete :: "world \<Rightarrow> state \<Rightarrow> string \<Rightarrow> string + state" where
  "meta_delete w s fid =
     (case meta_fault w of
        Some e \<Rightarrow> Inl e
      | None \<Rightarrow> Inr (s\<lparr>metadata_collection := AList.delete fid (metadata_collection s)\<rparr>))"

definition remove_file_metadata :: "world \<Rightarrow> state \<Rightarrow> string \<Rightarrow> state \<times> bool" where
  "remove_file_metadata w s p =
     (case meta_delete w s (generate_file_id w p) of
        Inl e \<Rightarrow> (print WARNING (''Error removing file metadata: '' @ e) s, False)
      | Inr s' \<Rightarrow> (print INFO (''Removed metadata for: '' @ basename p) s', True))"

text \<open>
  \<open>metadata_collection.get()\<close> without ids returns the entries of the collection ordered
  by their id, compared byte by byte.
\<close>

fun str_less_eq :: "string \<Rightarrow> string \<Rightarrow> bool" where
  "str_less_eq [] ys = True"
| "str_less_eq (x # xs) [] = False"
| "str_less_eq (x # xs) (y # ys) =
     (if x = y then str_less_eq xs ys else (of_char x :: nat) < of_char y)"

fun insert_by_id :: "string \<times> 'a \<Rightarrow> (string \<times> 'a) list \<Rightarrow> (string \<times> 'a) list" where
  "insert_by_id e [] = [e]"
| "insert_by_id e (x # xs) =
     (if str_less_eq (fst e) (fst x) then e # x # xs else x # insert_by_id e xs)"

definition order_by_id :: "(string \<times> 'a) list \<Rightarrow> (string \<times> 'a) list" where
  "order_by_id xs = foldr insert_by_id xs []"

definition get_all_tracked_files :: "world \<Rightarrow> state \<Rightarrow> state \<times> file_metadata list" where
  "get_all_tracked_files w s =
     (case meta_fault w of
        Some e \<Rightarrow> (print WARNING (''Error getting tracked files: '' @ e) s, [])
      | None \<Rightarrow> (s, map (\<lambda>(i, m). m\<lparr>file_id := i\<rparr>) (order_by_id (metadata_collection s))))"

text \<open>The loop of \<open>cleanup_deleted_files\<close> over the tracked files.\<close>

fun cleanup_loop ::
  "world \<Rightarrow> string list \<Rightarrow> file_metadata list \<Rightarrow> state \<Rightarrow> string list \<Rightarrow> state \<times> string list" where
  "cleanup_loop w existing_abs_paths [] s deleted_files = (s, deleted_files)"
| "cleanup_loop w existing_abs_paths (file_metadata # rest) s deleted_files =
     (if \<not> List.member existing_abs_paths (file_path file_metadata)
      then (case meta_delete w s (file_id file_metadata) of
              Inl e \<Rightarrow>
                cleanup_loop w existing_abs_paths rest
                  (print WARNING (''Error removing deleted file metadata: '' @ e) s) deleted_files
            | Inr s' \<Rightarrow>
                cleanup_loop w existing_abs_paths rest
                  (print INFO (''Removed deleted file: '' @ file_name file_metadata) s')
                  (deleted_files @ [file_path file_metadata]))
      else cleanup_loop w existing_abs_paths rest s deleted_files)"

definition cleanup_deleted_files :: "world \<Rightarrow> state \<Rightarrow> string list \<Rightarrow> state \<times> string list" where
  "cleanup_deleted_files w s existing_file_paths =
     (let (s1, tracked_files) = get_all_tracked_files w s;
          existing_abs_paths = map (abspath w) existing_file_paths
      in cleanup_loop w existing_abs_paths tracked_files s1 [])"

text \<open>\<open>get_modified_files\<close>: the result dict keeps its keys in the order of insertion.\<close>

fun get_modified_files_loop ::
  "world \<Rightarrow> string list \<Rightarrow> state \<Rightarrow> (string \<times> status) list \<Rightarrow> state \<times> (string \<times> status) list" where
  "get_modified_files_loop w [] s result = (s, result)"
| "get_modified_files_loop w (p # ps) s result =
     (if fs w p \<noteq> None
      then (let (s', is_modified, st) = is_file_modified w s p
            in get_modified_files_loop w ps s' (AList.update p st result))
      else get_modified_files_loop w ps s (AList.update p Not_found result))"

definition get_modified_files :: "world \<Rightarrow> state \<Rightarrow> string list \<Rightarrow> state \<times> (string \<times> status) list" where
  "get_modified_files w s file_paths = get_modified_files_loop w file_paths s []"

section \<open>Validation of paths\<close>

definition validate_file_path :: "world \<Rightarrow> state \<Rightarrow> string \<Rightarrow> state \<times> bool" where
  "validate_file_path w s p =
     (if p = [] then (print PLAIN ''No file path provided!'' s, False)
      else case fs w p of
        None \<Rightarrow> (print PLAIN (''File not found: '' @ p) s, False)
      | Some e \<Rightarrow>
          if kind e \<noteq> Regular then (print PLAIN (''Path is not a file: '' @ p) s, False)
          else (let file_ext = lower (splitext_ext p) in
                if \<not> List.member [''.pdf'', ''.txt'', ''.md''] file_ext
                then (print PLAIN ''Supported types: .pdf, .txt, .md''
                        (print PLAIN (''Unsupported file type: '' @ file_ext) s), False)
                else (s, True)))"

definition validate_directory_path :: "world \<Rightarrow> state \<Rightarrow> string option \<Rightarrow> state \<times> bool" where
  "validate_directory_path w s dir_path =
     (case dir_path of
        None \<Rightarrow> (s, True)
      | Some d \<Rightarrow>
          if d = [] then (s, True)
          else (case fs w d of
                  None \<Rightarrow> (print PLAIN (''Directory not found: '' @ d) s, False)
                | Some e \<Rightarrow>
                    if kind e \<noteq> Directory
                    then (print PLAIN (''Path is not a directory: '' @ d) s, False)
                    else (s, True)))"

section \<open>VectorStore\<close>

definition has_file_id :: "string \<Rightarrow> chunk \<Rightarrow> bool" where
  "has_file_id fid c = (map_of (chunk_meta c) ''file_id'' = Some (Str fid))"

text \<open>
  \<open>add_documents\<close>, called with \<open>ids=None\<close> and the metadata of the chunks: fresh ids, the
  \<open>file_id\<close> written into every metadata, one \<open>collection.add\<close>. Chroma refuses an \<open>add\<close>
  of empty lists with a \<open>ValueError\<close>, before it writes anything.
\<close>

definition add_documents ::
  "world \<Rightarrow> state \<Rightarrow> string list \<Rightarrow> (string \<times> mval) list list \<Rightarrow> string
     \<Rightarrow> string + (state \<times> nat list)" where
  "add_documents w s documents metadatas fid =
     (let ids = map (\<lambda>i. next_uuid s + i) [0..<length documents];
          metadatas' = (if fid \<noteq> [] then map (AList.update ''file_id'' (Str fid)) metadatas
                        else metadatas)
      in if documents = [] then Inl (empty_add_error w)
         else case vec_fault w of
           Some e \<Rightarrow> Inl e
         | None \<Rightarrow>
             Inr (print PLAIN (''Successfully indexed '' @ str_nat (length documents) @ '' document chunks!'')
                    (s\<lparr>collection := collection s @
                          map (\<lambda>(i, d, m). \<lparr>chunk_uuid = i, chunk_text = d, chunk_meta = m\<rparr>)
                            (zip ids (zip documents metadatas')),
                        next_uuid := next_uuid s + length documents\<rparr>),
                  ids))"

text \<open>
  \<open>collection.get(where={"file_id": file_id}, include=['ids'])\<close>: Chroma checks the items
  of \<open>include\<close> before it reads the collection, and \<open>ids\<close> is not an item it allows (the ids
  are always returned), so the call raises a \<open>ValueError\<close>.
\<close>

definition collection_get_ids :: "world \<Rightarrow> state \<Rightarrow> string \<Rightarrow> string + nat list" where
  "collection_get_ids w s fid = Inl (include_error w)"

definition remove_documents_by_file_id :: "world \<Rightarrow> state \<Rightarrow> string \<Rightarrow> state \<times> nat" where
  "remove_documents_by_file_id w s fid =
     (case collection_get_ids w s fid of
        Inl e \<Rightarrow> (print WARNING (''Error removing documents by file_id: '' @ e) s, 0)
      | Inr ids \<Rightarrow>
          if ids \<noteq> []
          then (case vec_fault w of
                  Some e \<Rightarrow> (print WARNING (''Error removing documents by file_id: '' @ e) s, 0)
                | None \<Rightarrow>
                    (print INFO (''Removed '' @ str_nat (length ids) @ '' chunks for file_id: ''
                                 @ take 8 fid @ ''...'')
                       (s\<lparr>collection := filter (\<lambda>c. \<not> List.member ids (chunk_uuid c)) (collection s)\<rparr>),
                     length ids))
          else (print INFO (''No chunks found for file_id: '' @ take 8 fid @ ''...'') s, 0))"

section \<open>DocumentLoader and TextProcessor\<close>

definition load_pdf :: "world \<Rightarrow> state \<Rightarrow> string \<Rightarrow> string + (state \<times> document list)" where
  "load_pdf w s p =
     (case load_pdf_docs w p of
        Inl e \<Rightarrow> Inl e
      | Inr documents \<Rightarrow>
          Inr (print PLAIN (''Loaded '' @ str_nat (length documents) @ '' pages from PDF: '' @ p) s,
               documents))"

definition load_text :: "world \<Rightarrow> state \<Rightarrow> string \<Rightarrow> string + (state \<times> document list)" where
  "load_text w s p =
     (case load_text_docs w p of
        Inl e \<Rightarrow> Inl e
      | Inr documents \<Rightarrow> Inr (print PLAIN (''Loaded text file: '' @ p) s, documents))"

definition add_chunk_info :: "nat \<times> document \<Rightarrow> document" where
  "add_chunk_info ic =
     (let i = fst ic; c = snd ic in
      if map_of (metadata c) ''chunk_id'' = None
      then c\<lparr>metadata :=
               AList.update ''chunk_size'' (Num (int (length (page_content c))))
                 (AList.update ''chunk_id'' (Num (int i)) (metadata c))\<rparr>
      else c)"

definition chunk_documents :: "world \<Rightarrow> state \<Rightarrow> document list \<Rightarrow> string + (state \<times> document list)" where
  "chunk_documents w s documents =
     (case split_documents w documents of
        Inl e \<Rightarrow> Inl e
      | Inr chunked_docs \<Rightarrow>
          Inr (print PLAIN (''Split '' @ str_nat (length documents) @ '' documents into ''
                            @ str_nat (length chunked_docs) @ '' chunks'') s,
               map add_chunk_info (zip [0..<length chunked_docs] chunked_docs)))"

definition extract_text_from_chunks :: "document list \<Rightarrow> string list" where
  "extract_text_from_chunks chunks = map page_content chunks"

definition get_chunk_metadata :: "document list \<Rightarrow> (string \<times> mval) list list" where
  "get_chunk_metadata chunks = map metadata chunks"

section \<open>DocumentIndexer\<close>

definition process_and_index_documents ::
  "world \<Rightarrow> state \<Rightarrow> document list \<Rightarrow> string \<Rightarrow> state \<times> bool \<times> nat" where
  "process_and_index_documents w s documents fid =
     (case chunk_documents w s documents of
        Inl e \<Rightarrow> (print ERROR (''Error during indexing: '' @ e) s, False, 0)
      | Inr (s1, chunked_docs) \<Rightarrow>
          (let texts = extract_text_from_chunks chunked_docs;
               metadatas = get_chunk_metadata chunked_docs
           in case add_documents w s1 texts metadatas fid of
                Inl e \<Rightarrow> (print ERROR (''Error during indexing: '' @ e) s1, False, 0)
              | Inr (s2, chunk_ids) \<Rightarrow> (s2, True, length texts)))"

definition status_str :: "status \<Rightarrow> string" where
  "status_str st =
     (case st of New \<Rightarrow> ''new'' | Modified \<Rightarrow> ''modified'' | Unchanged \<Rightarrow> ''unchanged''
      | Not_found \<Rightarrow> ''not_found'')"

text \<open>
  The \<open>try\<close> of \<open>index_single_file\<close> that loads the documents: \<open>Inl e\<close> when the loader
  raises, \<open>Inr None\<close> when the path ends in none of the three suffixes.
\<close>

definition load_documents ::
  "world \<Rightarrow> state \<Rightarrow> string \<Rightarrow> string + (state \<times> document list) option" where
  "load_documents w s p =
     (if endswith p ''.pdf'' then map_sum id Some (load_pdf w s p)
      else if endswith p ''.txt'' \<or> endswith p ''.md'' then map_sum id Some (load_text w s p)
      else Inr None)"

definition index_single_file :: "world \<Rightarrow> state \<Rightarrow> string \<Rightarrow> bool \<Rightarrow> state \<times> bool \<times> nat" where
  "index_single_file w s p update_tracking =
     (let file_name = basename p;
          (s1, valid) = validate_file_path w s p
      in if \<not> valid then (s1, False, 0)
         else
          (let (s2, is_modified, st) = is_file_modified w s1 p
           in if \<not> is_modified \<and> st = Unchanged
              then (let chunk_count = get_file_chunk_count w s2 p
                    in (print INFO (''Skipping unchanged file: '' @ file_name @ '' (''
                                    @ str_nat chunk_count @ '' chunks)'') s2,
                        True, chunk_count))
              else
               (let s3 = print HEADER (''Indexing File: '' @ file_name @ '' ['' @ status_str st @ '']'') s2;
                    fid = generate_file_id w p;
                    s4 = (if st = Modified
                          then (let (s', removed_count) = remove_documents_by_file_id w s3 fid
                                in print INFO (''Removed '' @ str_nat removed_count @ '' old chunks'') s')
                          else s3)
                in case load_documents w s4 p of
                     Inl e \<Rightarrow> (print ERROR (''Error loading file: '' @ e) s4, False, 0)
                   | Inr None \<Rightarrow> (print ERROR ''Unsupported file type'' s4, False, 0)
                   | Inr (Some (s5, documents)) \<Rightarrow>
                       if documents = [] then (print ERROR ''No content found in file'' s5, False, 0)
                       else
                        (let (s6, success, chunk_count) = process_and_index_documents w s5 documents fid
                         in if success \<and> update_tracking
                            then (let (s7, stored) = store_file_metadata w s6 p chunk_count
                                  in (print SUCCESS (''Indexed '' @ file_name @ '': ''
                                                     @ str_nat chunk_count @ '' chunks'') s7,
                                      success, chunk_count))
                            else (s6, success, chunk_count)))))"

text \<open>The two loops of \<open>index_documents_from_directory\<close> over \<open>files_to_process\<close>.\<close>

fun process_files :: "world \<Rightarrow> string list \<Rightarrow> state \<Rightarrow> nat \<Rightarrow> state \<times> nat" where
  "process_files w [] s total_chunks = (s, total_chunks)"
| "process_files w (p # ps) s total_chunks =
     (let (s', success, chunk_count) = index_single_file w s p False
      in process_files w ps s' (if success then total_chunks + chunk_count else total_chunks))"

fun update_tracking_loop :: "world \<Rightarrow> (string \<times> status) list \<Rightarrow> string list \<Rightarrow> state \<Rightarrow> state" where
  "update_tracking_loop w file_status [] s = s"
| "update_tracking_loop w file_status (p # ps) s =
     (if List.member (map fst file_status) p
      then (let chunk_count = get_file_chunk_count w s p;
                (s', stored) = store_file_metadata w s p chunk_count
            in update_tracking_loop w file_status ps s')
      else update_tracking_loop w file_status ps s)"

definition files_with_status :: "status \<Rightarrow> (string \<times> status) list \<Rightarrow> string list" where
  "files_with_status st file_status = map fst (filter (\<lambda>fs. snd fs = st) file_status)"

definition documents_directory :: string where
  "documents_directory = ''./source_documents''"

definition index_documents_from_directory ::
  "world \<Rightarrow> state \<Rightarrow> string option \<Rightarrow> bool \<Rightarrow> state \<times> bool" where
  "index_documents_from_directory w s documents_path force_reindex =
     (let s0 = print HEADER ''Starting Incremental Document Indexing'' s;
          (s1, valid) = validate_directory_path w s0 documents_path
      in if \<not> valid then (s1, False)
         else
          (let dir = (case documents_path of
                        None \<Rightarrow> documents_directory
                      | Some d \<Rightarrow> if d = [] then documents_directory else d);
               all_files = concat (map (\<lambda>pattern. glob w (os_path_join dir pattern))
                                     [''*.pdf'', ''*.txt'', ''*.md''])
           in if all_files = [] then (print ERROR ''No documents found to index!'' s1, False)
              else
               (let s2 = print INFO (''Found '' @ str_nat (length all_files) @ '' files to process'') s1;
                    (s3, file_status) = get_modified_files w s2 all_files;
                    new_files = files_with_status New file_status;
                    modified_files = files_with_status Modified file_status;
                    unchanged_files = files_with_status Unchanged file_status;
                    s4 = print INFO (''Unchanged files: '' @ str_nat (length unchanged_files))
                           (print INFO (''Modified files: '' @ str_nat (length modified_files))
                              (print INFO (''New files: '' @ str_nat (length new_files)) s3));
                    files_to_process = (if force_reindex then all_files else new_files @ modified_files);
                    s5 = (if force_reindex then print INFO ''Force reindex: processing all files'' s4
                          else if unchanged_files \<noteq> []
                          then print INFO (''Skipping '' @ str_nat (length unchanged_files)
                                           @ '' unchanged files'') s4
                          else s4)
                in if files_to_process = []
                   then (print SUCCESS ''All files are up to date, nothing to index!'' s5, True)
                   else
                    (let (s6, total_chunks) = process_files w files_to_process s5 0;
                         s7 = update_tracking_loop w file_status files_to_process s6;
                         (s8, deleted_files) = cleanup_deleted_files w s7 all_files;
                         s9 = (if deleted_files \<noteq> []
                               then print INFO (''Cleaned up '' @ str_nat (length deleted_files)
                                                @ '' deleted files'') s8
                               else s8)
                     in (print SUCCESS (''Indexing complete! Processed ''
                                        @ str_nat (length files_to_process) @ '' files, ''
                                        @ str_nat total_chunks @ '' chunks'') s9,
                         True)))))"

section \<open>RAGChain\<close>

record retrieved_doc =
  r_content :: string
  r_metadata :: "(string \<times> mval) list"
  r_distance :: rat
  r_id :: string

record llm_request =
  req_model :: string
  req_max_tokens :: nat
  req_temperature :: rat
  req_system :: string
  req_user_content :: string

text \<open>
  A chain holds the model's name, the temperature and the Anthropic client;
  \<open>messages_create\<close> is \<open>client.messages.create\<close>: \<open>Inl e\<close> when the call raises, else the
  texts of the content blocks of the message.
\<close>

record rag_chain =
  model_name :: string
  temperature :: rat
  messages_create :: "llm_request \<Rightarrow> string + string list"

definition is_space :: "char \<Rightarrow> bool" where
  "is_space c = List.member [9, 10, 11, 12, 13, 28, 29, 30, 31, 32, 133, 160 :: nat] (of_char c)"

text \<open>
  \<open>s.split()\<close>: the maximal runs of characters that are not white space. A character of
  the model is a code point below 256; of these Python counts the codes 9 to 13, 28 to 32,
  133 and 160 as white space.
\<close>

fun split_aux :: "string \<Rightarrow> string \<Rightarrow> string list" where
  "split_aux cur [] = (if cur = [] then [] else [cur])"
| "split_aux cur (c # cs) =
     (if is_space c then (if cur = [] then split_aux [] cs else cur # split_aux [] cs)
      else split_aux (cur @ [c]) cs)"

definition split_ws :: "string \<Rightarrow> string list" where
  "split_ws s = split_aux [] s"

definition str_int :: "int \<Rightarrow> string" where
  "str_int i = (if i < 0 then ''-'' @ str_nat (nat (- i)) else str_nat (nat i))"

definition str_mval :: "mval \<Rightarrow> string" where
  "str_mval v = (case v of Str s \<Rightarrow> s | Num i \<Rightarrow> str_int i)"

definition newline :: string where
  "newline = [CHR 0x0A]"

fun join :: "string \<Rightarrow> string list \<Rightarrow> string" where
  "join sep [] = []"
| "join sep [x] = x"
| "join sep (x # y # ys) = x @ sep @ join sep (y # ys)"

definition context_part :: "nat \<times> retrieved_doc \<Rightarrow> string" where
  "context_part idoc =
     (let i = fst idoc; doc = snd idoc;
          source = (case map_of (r_metadata doc) ''source'' of
                      None \<Rightarrow> ''Unknown source'' | Some v \<Rightarrow> str_mval v)
      in ''['' @ str_nat i @ ''] '' @ source @ '':'' @ newline @ r_content doc @ newline)"

definition format_context :: "retrieved_doc list \<Rightarrow> string" where
  "format_context retrieved_docs =
     join newline (map context_part (zip [1..<Suc (length retrieved_docs)] retrieved_docs))"

definition system_prompt :: string where
  "system_prompt = ''Answer using the provided context. Say \"I don't know\" if the context doesn't contain the answer. Be concise.''"

definition human_prompt :: "string \<Rightarrow> string \<Rightarrow> string" where
  "human_prompt context question =
     ''Context:'' @ newline @ context @ newline @ newline @ ''Q: '' @ question"

definition build_request :: "rag_chain \<Rightarrow> string \<Rightarrow> retrieved_doc list \<Rightarrow> bool \<Rightarrow> llm_request" where
  "build_request chain question retrieved_docs is_complex =
     (let context = format_context retrieved_docs;
          estimated_tokens = length (split_ws context) + length (split_ws question);
          max_tokens = (if is_complex \<or> estimated_tokens > 300 then 1200 else 800)
      in \<lparr>req_model = model_name chain, req_max_tokens = max_tokens,
           req_temperature = temperature chain, req_system = system_prompt,
           req_user_content = human_prompt context question\<rparr>)"

text \<open>The \<open>try\<close> of \<open>generate_response\<close>; \<open>message.content[0]\<close> raises on an empty list.\<close>

definition generate_response_try :: "rag_chain \<Rightarrow> llm_request \<Rightarrow> string + string" where
  "generate_response_try chain req =
     (case messages_create chain req of
        Inl e \<Rightarrow> Inl e
      | Inr [] \<Rightarrow> Inl ''list index out of range''
      | Inr (text # rest) \<Rightarrow> Inr text)"

definition generate_response :: "rag_chain \<Rightarrow> string \<Rightarrow> retrieved_doc list \<Rightarrow> bool \<Rightarrow> string" where
  "generate_response chain question retrieved_docs is_complex =
     (case generate_response_try chain (build_request chain question retrieved_docs is_complex) of
        Inl e \<Rightarrow> ''Error generating response: '' @ e
      | Inr text \<Rightarrow> text)"

section \<open>Example worlds and states\<close>

text \<open>
  The examples use a directory \<open>/docs\<close>, a stand-in digest given by a table, a loader
  that returns a file's content as one document, and a splitter that cuts at white space.
\<close>

definition demo_md5 :: "string \<Rightarrow> nat" where
  "demo_md5 x =
     (case map_of [(''/docs/a.txt'', 161), (''/docs/b.txt'', 177), (''/docs/bad.pdf'', 189),
                   (''/docs/locked.txt'', 200), (''alpha beta gamma'', 2779),
                   (''alpha beta delta'', 2780), (''alpha beta gamma!'', 2781),
                   (''delta'', 222), (''%PDF'', 77)] x of
        Some n \<Rightarrow> n
      | None \<Rightarrow> 0)"

definition dir_entry :: fentry where
  "dir_entry = \<lparr>kind = Directory, st_size = 4096, st_mtime = 50, data = None\<rparr>"

definition file_a :: fentry where
  "file_a = \<lparr>kind = Regular, st_size = 16, st_mtime = 100, data = Some ''alpha beta gamma''\<rparr>"

definition file_a_edited :: fentry where
  "file_a_edited = \<lparr>kind = Regular, st_size = 16, st_mtime = 100, data = Some ''alpha beta delta''\<rparr>"

definition file_a_grown :: fentry where
  "file_a_grown = \<lparr>kind = Regular, st_size = 17, st_mtime = 100, data = Some ''alpha beta gamma!''\<rparr>"

definition file_b :: fentry where
  "file_b = \<lparr>kind = Regular, st_size = 5, st_mtime = 101, data = Some ''delta''\<rparr>"

definition file_bad :: fentry where
  "file_bad = \<lparr>kind = Regular, st_size = 4, st_mtime = 102, data = Some ''%PDF''\<rparr>"

definition file_locked :: fentry where
  "file_locked = \<lparr>kind = Regular, st_size = 5, st_mtime = 7 / 2, data = None\<rparr>"

definition demo_load :: "(string \<times> fentry) list \<Rightarrow> string \<Rightarrow> string + document list" where
  "demo_load files p =
     (case map_of files p of
        None \<Rightarrow> Inl ''no such file''
      | Some e \<Rightarrow>
          (case data e of
             None \<Rightarrow> Inl ''permission denied''
           | Some d \<Rightarrow> Inr [\<lparr>page_content = d, metadata = [(''source'', Str p)]\<rparr>]))"

definition demo_split :: "document list \<Rightarrow> string + document list" where
  "demo_split ds =
     Inr (concat (map (\<lambda>d. map (\<lambda>t. \<lparr>page_content = t, metadata = metadata d\<rparr>)
                              (split_ws (page_content d))) ds))"

definition demo_world :: "(string \<times> fentry) list \<Rightarrow> string list \<Rightarrow> string list \<Rightarrow> world" where
  "demo_world files pdfs txts =
     \<lparr>fs = map_of files, abspath = (\<lambda>p. p),
      glob = (\<lambda>pat. if pat = ''/docs/*.pdf'' then pdfs else if pat = ''/docs/*.txt'' then txts else []),
      md5 = demo_md5, now = 1000, meta_fault = None, vec_fault = None,
      include_error = ''Expected include item to be one of documents, embeddings, metadatas, got ids'',
      empty_add_error = ''Expected IDs to be a non-empty list, got 0 IDs'',
      load_pdf_docs = (\<lambda>p. Inl ''not a PDF''), load_text_docs = demo_load files,
      split_documents = demo_split\<rparr>"

definition world_a :: world where
  "world_a = demo_world [(''/docs'', dir_entry), (''/docs/a.txt'', file_a)] [] [''/docs/a.txt'']"

definition world_a_edited :: world where
  "world_a_edited =
     demo_world [(''/docs'', dir_entry), (''/docs/a.txt'', file_a_edited)] [] [''/docs/a.txt'']"

definition world_a_grown :: world where
  "world_a_grown =
     demo_world [(''/docs'', dir_entry), (''/docs/a.txt'', file_a_grown)] [] [''/docs/a.txt'']"

definition world_a_whole :: world where
  "world_a_whole = world_a\<lparr>split_documents := Inr\<rparr>"

definition world_a_down :: world where
  "world_a_down = world_a\<lparr>meta_fault := Some ''database is locked''\<rparr>"

definition world_b :: world where
  "world_b = demo_world [(''/docs'', dir_entry), (''/docs/b.txt'', file_b)] [] [''/docs/b.txt'']"

definition world_none :: world where
  "world_none = demo_world [(''/docs'', dir_entry)] [] []"

definition world_bad :: world where
  "world_bad = demo_world [(''/docs'', dir_entry), (''/docs/bad.pdf'', file_bad)] [''/docs/bad.pdf''] []"

definition world_locked :: world where
  "world_locked =
     demo_world [(''/docs'', dir_entry), (''/docs/locked.txt'', file_locked)] [] [''/docs/locked.txt'']"

definition s_empty :: state where
  "s_empty = \<lparr>metadata_collection = [], collection = [], next_uuid = 0, out = []\<rparr>"

definition id_a :: string where
  "id_a = ''000000000000000000000000000000a1''"

definition id_b :: string where
  "id_b = ''000000000000000000000000000000b1''"

definition record_a :: file_metadata where
  "record_a = \<lparr>file_id = id_a, file_path = ''/docs/a.txt'', file_name = ''a.txt'', size_b = 16,
                mtime = 100, extension = ''.txt'', indexed_at = 1000,
                content_hash = Some ''00000000000000000000000000000adb'', chunk_count = Some 3\<rparr>"

definition record_b :: file_metadata where
  "record_b = \<lparr>file_id = id_b, file_path = ''/docs/b.txt'', file_name = ''b.txt'', size_b = 5,
                mtime = 101, extension = ''.txt'', indexed_at = 1000,
                content_hash = Some ''000000000000000000000000000000de'', chunk_count = Some 1\<rparr>"

definition demo_chunk :: "nat \<Rightarrow> string \<Rightarrow> string \<Rightarrow> nat \<Rightarrow> string \<Rightarrow> chunk" where
  "demo_chunk u t src i fid =
     \<lparr>chunk_uuid = u, chunk_text = t,
      chunk_meta = [(''source'', Str src), (''chunk_id'', Num (int i)),
                    (''chunk_size'', Num (int (length t))), (''file_id'', Str fid)]\<rparr>"

definition chunks_a :: "chunk list" where
  "chunks_a = [demo_chunk 0 ''alpha'' ''/docs/a.txt'' 0 id_a, demo_chunk 1 ''beta'' ''/docs/a.txt'' 1 id_a,
               demo_chunk 2 ''gamma'' ''/docs/a.txt'' 2 id_a]"

definition state_a :: state where
  "state_a = \<lparr>metadata_collection = [(id_a, record_a)], collection = chunks_a, next_uuid = 3, out = []\<rparr>"

definition state_ab :: state where
  "state_ab = \<lparr>metadata_collection = [(id_a, record_a), (id_b, record_b)],
                collection = chunks_a @ [demo_chunk 3 ''delta'' ''/docs/b.txt'' 0 id_b],
                next_uuid = 4, out = []\<rparr>"

definition world_ab :: world where
  "world_ab = demo_world [(''/docs'', dir_entry), (''/docs/a.txt'', file_a), (''/docs/b.txt'', file_b)]
                [] [''/docs/a.txt'', ''/docs/b.txt'']"

definition stores :: "state \<Rightarrow> (string \<times> file_metadata) list \<times> chunk list \<times> nat" where
  "stores s = (metadata_collection s, collection s, next_uuid s)"

definition tracked :: "state \<Rightarrow> (string \<times> nat option) list" where
  "tracked s = map (\<lambda>im. (file_path (snd im), chunk_count (snd im))) (metadata_collection s)"

definition chunks_of :: "string \<Rightarrow> state \<Rightarrow> chunk list" where
  "chunks_of fid s = filter (has_file_id fid) (collection s)"

definition demo_chain :: rag_chain where
  "demo_chain = \<lparr>model_name = ''claude-3-haiku-20240307'', temperature = 1 / 10,
                  messages_create = (\<lambda>req. if req_max_tokens req = 800 then Inl ''Connection error.''
                                            else Inr [''I do not know.''])\<rparr>"

definition demo_docs :: "retrieved_doc list" where
  "demo_docs = [\<lparr>r_content = ''alpha beta'', r_metadata = [(''source'', Str ''/docs/a.txt'')],
                  r_distance = 1 / 2, r_id = ''0''\<rparr>,
                \<lparr>r_content = ''gamma'', r_metadata = [(''page'', Num 2)], r_distance = 3 / 4, r_id = ''1''\<rparr>]"

section \<open>The example states are reached by the code\<close>

lemma state_a_reached:
  "(let (s, ok, n) = index_single_file world_a s_empty ''/docs/a.txt'' True
    in ok \<and> n = 3 \<and> s\<lparr>out := []\<rparr> = state_a)"
  by code_simp

lemma state_ab_reached:
  "(let (s, ok, n) = index_single_file world_ab state_a ''/docs/b.txt'' True
    in ok \<and> n = 1 \<and> s\<lparr>out := []\<rparr> = state_ab)"
  by code_simp

section \<open>Helper lemmas\<close>

lemma hexdigits_length: "length (hexdigits k n) = k"
  by (induction k arbitrary: n) auto

lemma hexdigest_length: "length (hexdigest n) = 32"
  by (simp add: hexdigest_def hexdigits_length)

lemma hexdigest_not_empty: "hexdigest n \<noteq> []"
  using hexdigest_length [of n] by auto

lemma stores_print: "stores (print l msg s) = stores s"
  by (simp add: stores_def print_def)

lemma validate_file_path_valid:
  assumes "snd (validate_file_path w s p)"
  shows "validate_file_path w s p = (s, True)"
  using assms by (auto simp add: validate_file_path_def Let_def split: if_splits option.splits)

lemma validate_file_path_state_indep:
  "snd (validate_file_path w s' p) = snd (validate_file_path w s p)"
  by (auto simp add: validate_file_path_def Let_def split: option.splits)

lemma is_file_modified_try_meta_only:
  assumes "metadata_collection s' = metadata_collection s"
  shows "is_file_modified_try w s' p m = is_file_modified_try w s p m"
  using assms by (simp add: is_file_modified_try_def meta_get_def split: option.splits)

lemma is_file_modified_meta_only:
  assumes "metadata_collection s' = metadata_collection s"
  shows "snd (is_file_modified w s' p) = snd (is_file_modified w s p)"
  using is_file_modified_try_meta_only [OF assms]
  by (auto simp add: is_file_modified_def split: option.splits sum.splits)

lemma is_file_modified_unchanged_state:
  assumes "snd (is_file_modified w s p) = (False, Unchanged)"
  shows "is_file_modified w s p = (s, False, Unchanged)"
  using assms by (auto simp add: is_file_modified_def split: option.splits sum.splits)

lemma get_file_chunk_count_meta_only:
  assumes "metadata_collection s' = metadata_collection s"
  shows "get_file_chunk_count w s' p = get_file_chunk_count w s p"
  using assms by (simp add: get_file_chunk_count_def meta_get_def split: option.splits)

lemma is_file_modified_unchanged_record:
  assumes "snd (is_file_modified w s p) = (False, Unchanged)"
  shows "\<exists>r. map_of (metadata_collection s) (generate_file_id w p) = Some r"
  using assms
  by (auto simp add: is_file_modified_def is_file_modified_try_def meta_get_def get_file_metadata_def
      split: option.splits sum.splits if_splits)

lemma index_single_file_skip:
  assumes "snd (validate_file_path w s p)" and "snd (is_file_modified w s p) = (False, Unchanged)"
  shows "index_single_file w s p u =
           (print INFO (''Skipping unchanged file: '' @ basename p @ '' (''
                        @ str_nat (get_file_chunk_count w s p) @ '' chunks)'') s,
            True, get_file_chunk_count w s p)"
  using validate_file_path_valid [OF assms(1)] is_file_modified_unchanged_state [OF assms(2)]
  by (simp add: index_single_file_def Let_def)

lemma remove_documents_by_file_id_removes_nothing:
  "remove_documents_by_file_id w s fid =
     (print WARNING (''Error removing documents by file_id: '' @ include_error w) s, 0)"
  by (simp add: remove_documents_by_file_id_def collection_get_ids_def)

text \<open>
  \<open>cleanup_deleted_files\<close> never changes the document collection, whatever it is given.
\<close>

lemma cleanup_loop_collection:
  "collection (fst (cleanup_loop w existing tracked_files s deleted)) = collection s"
  by (induction tracked_files arbitrary: s deleted)
     (auto simp add: meta_delete_def print_def split: option.splits)

lemma cleanup_deleted_files_collection:
  "collection (fst (cleanup_deleted_files w s existing_file_paths)) = collection s"
  by (simp add: cleanup_deleted_files_def get_all_tracked_files_def cleanup_loop_collection
      print_def split: option.splits)

section \<open>Directory synchronisation: where the code leaves the specification\<close>

text \<open>
  Claim C1 (deletion completeness): for every tracked file whose path is no longer among
  the enumerated candidates, a pass of \<open>index_documents_from_directory\<close> removes its
  record from the metadata collection and all chunks tagged with its \<open>file_id\<close>, so that
  the count of the document collection excludes them.

  The code does not do so. With \<open>a.txt\<close> and \<open>b.txt\<close> indexed and \<open>a.txt\<close> deleted from the
  directory, \<open>b.txt\<close> is unchanged, the pass returns at "nothing to index" before it reaches
  \<open>cleanup_deleted_files\<close>, and both collections stay as they were. When the pass does reach
  the cleanup (here because \<open>b.txt\<close> is new), the record of \<open>a.txt\<close> goes and its three
  chunks stay, since \<open>cleanup_deleted_files\<close> only deletes from the metadata collection.
  When the directory is left empty, the pass fails with "No documents found" and removes
  nothing.
\<close>

theorem directory_pass_leaves_deleted_file:
  "(let (s, ok) = index_documents_from_directory world_b state_ab (Some ''/docs'') False
    in ok \<and> stores s = stores state_ab
       \<and> map_of (metadata_collection s) id_a = Some record_a
       \<and> chunks_of id_a s = chunks_a \<and> length (collection s) = 4)
   \<and> (let (s, ok) = index_documents_from_directory world_b state_a (Some ''/docs'') False
       in ok \<and> tracked s = [(''/docs/b.txt'', Some 0)]
          \<and> chunks_of id_a s = chunks_a \<and> length (collection s) = 4)
   \<and> (let (s, ok) = index_documents_from_directory world_none state_a (Some ''/docs'') False
       in \<not> ok \<and> stores s = stores state_a)"
  by code_simp

text \<open>
  Claim C2 (record and chunks agree): after a pass every tracked file has one record whose
  \<open>chunk_count\<close> is the number of chunks of that \<open>file_id\<close> in the document collection; a
  directory with one new file that gives N chunks ends with \<open>chunk_count = N\<close>.

  The pass calls \<open>index_single_file\<close> with \<open>update_tracking=False\<close> and then stores, for
  every processed file, the count that \<open>get_file_chunk_count\<close> reads from the metadata
  collection: 0 for a new file. The new file \<open>a.txt\<close> gives three chunks and a record with
  \<open>chunk_count = 0\<close>; \<open>index_single_file\<close> with tracking stores 3 for the same file.
\<close>

theorem directory_pass_records_stale_chunk_count:
  "(let (s, ok) = index_documents_from_directory world_a s_empty (Some ''/docs'') False
    in ok \<and> tracked s = [(''/docs/a.txt'', Some 0)] \<and> chunks_of id_a s = chunks_a)
   \<and> (let (s, ok, n) = index_single_file world_a s_empty ''/docs/a.txt'' True
       in ok \<and> n = 3 \<and> tracked s = [(''/docs/a.txt'', Some 3)] \<and> chunks_of id_a s = chunks_a)"
  by code_simp

text \<open>
  Claim C3 (force): with \<open>force_reindex\<close> every candidate is chunked and stored again,
  whatever its classification, and the record gets the fresh chunk count.

  The pass puts every candidate into \<open>files_to_process\<close>, but \<open>index_single_file\<close>
  classifies the file again and returns early on \<open>unchanged\<close>. In the example the splitter
  now keeps a document whole, so a fresh indexing of \<open>a.txt\<close> gives one chunk; the forced pass
  keeps the three old chunks, makes no new one and stores the count 3 again.
\<close>

theorem force_reindex_skips_unchanged:
  "(let (s, ok) = index_documents_from_directory world_a_whole state_a (Some ''/docs'') True
    in ok \<and> collection s = chunks_a \<and> next_uuid s = 3 \<and> tracked s = [(''/docs/a.txt'', Some 3)]
       \<and> out s = [(HEADER, ''Starting Incremental Document Indexing''),
                   (INFO, ''Found 1 files to process''),
                   (INFO, ''New files: 0''), (INFO, ''Modified files: 0''),
                   (INFO, ''Unchanged files: 1''),
                   (INFO, ''Force reindex: processing all files''),
                   (INFO, ''Skipping unchanged file: a.txt (3 chunks)''),
                   (INFO, ''Updated metadata for: a.txt''),
                   (SUCCESS, ''Indexing complete! Processed 1 files, 3 chunks'')])
   \<and> (let (s, ok, n) = index_single_file world_a_whole s_empty ''/docs/a.txt'' True
       in ok \<and> n = 1)"
  by code_simp

text \<open>
  Claim C4 (load failure): a file of a directory batch whose loading fails is logged and
  skipped, the batch goes on, and the file gets no record, so that the next run tries it
  again.

  The failure is logged and the batch goes on, but the loop that updates the tracking
  stores a record for every file of \<open>files_to_process\<close>, failed or not. After the pass
  \<open>bad.pdf\<close> is tracked with \<open>chunk_count = 0\<close> and no chunk, it is classified \<open>unchanged\<close>,
  and a second pass changes nothing. \<open>index_single_file\<close> with tracking stores no record for
  the same file.
\<close>

theorem directory_pass_tracks_failed_load:
  "(let (s, ok) = index_documents_from_directory world_bad s_empty (Some ''/docs'') False
    in ok \<and> List.member (out s) (ERROR, ''Error loading file: not a PDF'')
       \<and> tracked s = [(''/docs/bad.pdf'', Some 0)] \<and> collection s = []
       \<and> snd (is_file_modified world_bad s ''/docs/bad.pdf'') = (False, Unchanged)
       \<and> snd (index_documents_from_directory world_bad s (Some ''/docs'') False)
       \<and> stores (fst (index_documents_from_directory world_bad s (Some ''/docs'') False)) = stores s)
   \<and> (let (s, ok, n) = index_single_file world_bad s_empty ''/docs/bad.pdf'' True
       in \<not> ok \<and> tracked s = [])"
  by code_simp

section \<open>Fingerprints and classification\<close>

text \<open>
  Claim C5 (hash unavailable): \<open>get_file_metadata\<close> with \<open>include_hash\<close> returns, for
  every existing file, the snapshot with the size and the modification time of the file,
  also when its content cannot be read. The \<open>content_hash\<close> of the snapshot is the digest
  of the content when the content can be read, and the marker for an unavailable hash, the
  empty string, exactly when it cannot. No digest equals the marker: a digest has 32
  characters.
\<close>

theorem get_file_metadata_hash_unavailable:
  assumes "fs w p = Some e"
  shows "\<exists>r. get_file_metadata w p True = Some r \<and> size_b r = st_size e \<and> mtime r = st_mtime e
           \<and> content_hash r = (case data e of None \<Rightarrow> Some [] | Some d \<Rightarrow> Some (hexdigest (md5 w d)))
           \<and> (content_hash r = Some [] \<longleftrightarrow> data e = None)
           \<and> (\<forall>c. hexdigest (md5 w c) \<noteq> [] \<and> length (hexdigest (md5 w c)) = 32)"
  using assms
  by (auto simp add: get_file_metadata_def get_file_hash_def hexdigest_not_empty hexdigest_length
      split: option.splits)

theorem get_file_metadata_hash_unavailable_witness:
  "(\<exists>r. get_file_metadata world_locked ''/docs/locked.txt'' True = Some r \<and> size_b r = 5
        \<and> mtime r = 7 / 2 \<and> content_hash r = Some [])
   \<and> (\<exists>r. get_file_metadata world_a ''/docs/a.txt'' True = Some r \<and> size_b r = 16 \<and> mtime r = 100
           \<and> content_hash r = Some (hexdigest (md5 world_a ''alpha beta gamma''))
           \<and> content_hash r \<noteq> Some [])"
proof -
  have h1: "fs world_locked ''/docs/locked.txt'' = Some file_locked" by code_simp
  have h2: "fs world_a ''/docs/a.txt'' = Some file_a" by code_simp
  have l: "data file_locked = None" "st_size file_locked = 5" "st_mtime file_locked = 7 / 2"
    by (simp_all add: file_locked_def)
  have a: "data file_a = Some ''alpha beta gamma''" "st_size file_a = 16" "st_mtime file_a = 100"
    by (simp_all add: file_a_def)
  from get_file_metadata_hash_unavailable [OF h1] l
  have first: "\<exists>r. get_file_metadata world_locked ''/docs/locked.txt'' True = Some r \<and> size_b r = 5
                 \<and> mtime r = 7 / 2 \<and> content_hash r = Some []"
    by auto
  from get_file_metadata_hash_unavailable [OF h2] a
  have second: "\<exists>r. get_file_metadata world_a ''/docs/a.txt'' True = Some r \<and> size_b r = 16
                  \<and> mtime r = 100
                  \<and> content_hash r = Some (hexdigest (md5 world_a ''alpha beta gamma''))
                  \<and> content_hash r \<noteq> Some []"
    by auto
  show ?thesis using first second by blast
qed

text \<open>
  Claim C6 (order of the checks), as it holds of the code: for an existing file and a
  metadata collection that answers, \<open>is_file_modified\<close> looks the record up first (no
  record: \<open>new\<close>), then compares the modification time (different: \<open>modified\<close>), then the
  size (different: \<open>modified\<close>), and only when both are equal computes the content hash
  and compares it. It stops at the first difference, so the checks made are always a
  prefix of record, mtime, size, hash, and the hash is computed exactly when the record
  exists and both cheap signals match.

  The claim puts the size before the modification time. The counterexample is a tracked
  file whose size changed and whose modification time did not: the code compares the
  modification time, then the size.
\<close>

theorem is_file_modified_check_order:
  assumes "fs w p = Some e" and "meta_fault w = None"
  shows "prefix (is_file_modified_checks w s p) [Check_record, Check_mtime, Check_size, Check_hash]
       \<and> (Check_hash \<in> set (is_file_modified_checks w s p) \<longleftrightarrow>
            (\<exists>r. map_of (metadata_collection s) (generate_file_id w p) = Some r
                 \<and> mtime r = st_mtime e \<and> size_b r = st_size e))
       \<and> (case map_of (metadata_collection s) (generate_file_id w p) of
             None \<Rightarrow>
               is_file_modified_checks w s p = [Check_record]
               \<and> snd (is_file_modified w s p) = (True, New)
           | Some r \<Rightarrow>
               if mtime r \<noteq> st_mtime e
               then is_file_modified_checks w s p = [Check_record, Check_mtime]
                    \<and> snd (is_file_modified w s p) = (True, Modified)
               else if size_b r \<noteq> st_size e
               then is_file_modified_checks w s p = [Check_record, Check_mtime, Check_size]
                    \<and> snd (is_file_modified w s p) = (True, Modified)
               else is_file_modified_checks w s p = [Check_record, Check_mtime, Check_size, Check_hash]
                    \<and> snd (is_file_modified w s p) =
                        (if content_hash r = Some (get_file_hash w p) then (False, Unchanged)
                         else (True, Modified)))"
  using assms
  by (auto simp add: is_file_modified_checks_def is_file_modified_def is_file_modified_try_def
      meta_get_def get_file_metadata_def split: option.splits)

theorem is_file_modified_check_order_witness:
  "is_file_modified_checks world_a state_a ''/docs/a.txt''
     = [Check_record, Check_mtime, Check_size, Check_hash]
   \<and> snd (is_file_modified world_a state_a ''/docs/a.txt'') = (False, Unchanged)"
proof -
  have h1: "fs world_a ''/docs/a.txt'' = Some file_a" by code_simp
  have h2: "meta_fault world_a = None" by code_simp
  have h3: "map_of (metadata_collection state_a) (generate_file_id world_a ''/docs/a.txt'') = Some record_a"
    by code_simp
  have h4: "mtime record_a = st_mtime file_a" "size_b record_a = st_size file_a"
    "content_hash record_a = Some (get_file_hash world_a ''/docs/a.txt'')"
    by code_simp+
  show ?thesis
    using is_file_modified_check_order [OF h1 h2, of state_a] h3 h4 by simp
qed

theorem is_file_modified_size_first_counterexample:
  "is_file_modified_checks world_a_grown state_a ''/docs/a.txt''
     = [Check_record, Check_mtime, Check_size]
   \<and> \<not> prefix (is_file_modified_checks world_a_grown state_a ''/docs/a.txt'')
              [Check_record, Check_size, Check_mtime, Check_hash]"
  by code_simp

text \<open>
  Claim C7 (soundness of the classification): for an existing file with a record, and a
  metadata collection that answers, the classification is \<open>unchanged\<close> exactly when the
  content hash, the size and the modification time all equal the recorded values, and
  \<open>modified\<close> otherwise; in particular a different hash with equal size and modification
  time gives \<open>modified\<close>.
\<close>

theorem is_file_modified_tracked:
  assumes "fs w p = Some e" and "meta_fault w = None"
    and "map_of (metadata_collection s) (generate_file_id w p) = Some r"
  shows "snd (is_file_modified w s p) =
           (if content_hash r = Some (get_file_hash w p) \<and> size_b r = st_size e \<and> mtime r = st_mtime e
            then (False, Unchanged) else (True, Modified))"
  using assms
  by (auto simp add: is_file_modified_def get_file_metadata_def is_file_modified_try_def meta_get_def)

theorem is_file_modified_tracked_witness:
  "snd (is_file_modified world_a state_a ''/docs/a.txt'') = (False, Unchanged)
   \<and> snd (is_file_modified world_a_edited state_a ''/docs/a.txt'') = (True, Modified)
   \<and> size_b record_a = st_size file_a_edited \<and> mtime record_a = st_mtime file_a_edited"
proof -
  have a1: "fs world_a ''/docs/a.txt'' = Some file_a" by code_simp
  have a2: "meta_fault world_a = None" by code_simp
  have a3: "map_of (metadata_collection state_a) (generate_file_id world_a ''/docs/a.txt'') = Some record_a"
    by code_simp
  have a4: "content_hash record_a = Some (get_file_hash world_a ''/docs/a.txt'')
            \<and> size_b record_a = st_size file_a \<and> mtime record_a = st_mtime file_a"
    by code_simp
  have b1: "fs world_a_edited ''/docs/a.txt'' = Some file_a_edited" by code_simp
  have b2: "meta_fault world_a_edited = None" by code_simp
  have b3: "map_of (metadata_collection state_a) (generate_file_id world_a_edited ''/docs/a.txt'')
              = Some record_a"
    by code_simp
  have b4: "content_hash record_a \<noteq> Some (get_file_hash world_a_edited ''/docs/a.txt'')"
    by code_simp
  have b5: "size_b record_a = st_size file_a_edited \<and> mtime record_a = st_mtime file_a_edited"
    by code_simp
  show ?thesis
    using is_file_modified_tracked [OF a1 a2 a3] is_file_modified_tracked [OF b1 b2 b3] a4 b4 b5
    by simp
qed

text \<open>
  Claim C9 (store error while classifying): when the metadata collection raises during
  the check of an existing file, \<open>is_file_modified\<close> does not raise; it prints a warning
  with the error and classifies the file as \<open>new\<close>.
\<close>

theorem is_file_modified_store_error:
  assumes "fs w p = Some e" and "meta_fault w = Some msg"
  shows "is_file_modified w s p =
           (print WARNING (''Error checking file metadata: '' @ msg) s, True, New)"
  using assms
  by (simp add: is_file_modified_def get_file_metadata_def is_file_modified_try_def meta_get_def)

theorem is_file_modified_store_error_witness:
  "is_file_modified world_a_down state_a ''/docs/a.txt'' =
     (state_a\<lparr>out := [(WARNING, ''Error checking file metadata: database is locked'')]\<rparr>, True, New)"
proof -
  have h1: "fs world_a_down ''/docs/a.txt'' = Some file_a" by code_simp
  have h2: "meta_fault world_a_down = Some ''database is locked''" by code_simp
  have h3: "print WARNING (''Error checking file metadata: '' @ ''database is locked'') state_a
              = state_a\<lparr>out := [(WARNING, ''Error checking file metadata: database is locked'')]\<rparr>"
    by (simp add: print_def state_a_def)
  show ?thesis using is_file_modified_store_error [OF h1 h2, of state_a] h3 by simp
qed

section \<open>The single-file entry point\<close>

text \<open>
  Claim C8 (short-circuit on unchanged): for a path that passes \<open>validate_file_path\<close> and
  is classified \<open>unchanged\<close>, \<open>index_single_file\<close> returns success with the recorded
  \<open>chunk_count\<close>; it prints one line and leaves the metadata collection, the document
  collection and the supply of chunk ids as they were. A second call therefore returns
  the same answer and again changes nothing.
\<close>

theorem index_single_file_unchanged:
  assumes "snd (validate_file_path w s p)" and "snd (is_file_modified w s p) = (False, Unchanged)"
  shows "(\<exists>r. map_of (metadata_collection s) (generate_file_id w p) = Some r
              \<and> snd (index_single_file w s p u) = (True, case chunk_count r of None \<Rightarrow> 0 | Some n \<Rightarrow> n))
       \<and> fst (index_single_file w s p u) =
           print INFO (''Skipping unchanged file: '' @ basename p @ '' (''
                       @ str_nat (get_file_chunk_count w s p) @ '' chunks)'') s
       \<and> stores (fst (index_single_file w s p u)) = stores s
       \<and> stores (fst (index_single_file w (fst (index_single_file w s p u)) p u)) = stores s
       \<and> snd (index_single_file w (fst (index_single_file w s p u)) p u) = snd (index_single_file w s p u)"
proof -
  let ?n = "get_file_chunk_count w s p"
  let ?s' = "print INFO (''Skipping unchanged file: '' @ basename p @ '' ('' @ str_nat ?n @ '' chunks)'') s"
  have first: "index_single_file w s p u = (?s', True, ?n)"
    by (rule index_single_file_skip [OF assms])
  obtain r where r: "map_of (metadata_collection s) (generate_file_id w p) = Some r"
    using is_file_modified_unchanged_record [OF assms(2)] by blast
  have count: "?n = (case chunk_count r of None \<Rightarrow> 0 | Some n \<Rightarrow> n)"
    using r assms(2)
    by (auto simp add: get_file_chunk_count_def meta_get_def is_file_modified_def
        is_file_modified_try_def get_file_metadata_def split: option.splits sum.splits)
  have meta: "metadata_collection ?s' = metadata_collection s"
    by (simp add: print_def)
  have v': "snd (validate_file_path w ?s' p)"
    using assms(1) validate_file_path_state_indep [of w ?s' p s] by simp
  have m': "snd (is_file_modified w ?s' p) = (False, Unchanged)"
    using assms(2) is_file_modified_meta_only [OF meta] by simp
  have n': "get_file_chunk_count w ?s' p = ?n"
    by (rule get_file_chunk_count_meta_only [OF meta])
  have second: "index_single_file w ?s' p u =
      (print INFO (''Skipping unchanged file: '' @ basename p @ '' ('' @ str_nat ?n @ '' chunks)'') ?s',
       True, ?n)"
    using index_single_file_skip [OF v' m', of u] n' by simp
  show ?thesis
    using first second r count by (simp add: stores_print)
qed

theorem index_single_file_unchanged_witness:
  "snd (index_single_file world_a state_a ''/docs/a.txt'' True) = (True, 3)
   \<and> stores (fst (index_single_file world_a state_a ''/docs/a.txt'' True)) = stores state_a
   \<and> snd (index_single_file world_a (fst (index_single_file world_a state_a ''/docs/a.txt'' True))
            ''/docs/a.txt'' True) = (True, 3)"
proof -
  have h1: "snd (validate_file_path world_a state_a ''/docs/a.txt'')" by code_simp
  have h2: "snd (is_file_modified world_a state_a ''/docs/a.txt'') = (False, Unchanged)" by code_simp
  have h3: "map_of (metadata_collection state_a) (generate_file_id world_a ''/docs/a.txt'') = Some record_a"
    by code_simp
  have h4: "chunk_count record_a = Some 3" by (simp add: record_a_def)
  show ?thesis
    using index_single_file_unchanged [OF h1 h2, of True] h3 h4 by auto
qed

section \<open>Answer generation\<close>

text \<open>
  Claim C10 (failure of the language model): when \<open>client.messages.create\<close> raises for the
  request built from the question and the retrieved documents, \<open>generate_response\<close>
  returns the string "Error generating response: " followed by the error, and does not
  raise.
\<close>

theorem generate_response_llm_failure:
  assumes "messages_create chain (build_request chain question retrieved_docs is_complex) = Inl e"
  shows "generate_response chain question retrieved_docs is_complex = ''Error generating response: '' @ e"
  using assms by (simp add: generate_response_def generate_response_try_def)

theorem generate_response_llm_failure_witness:
  "generate_response demo_chain ''What is alpha?'' demo_docs False
     = ''Error generating response: Connection error.''"
proof -
  have h: "messages_create demo_chain (build_request demo_chain ''What is alpha?'' demo_docs False)
             = Inl ''Connection error.''"
    by code_simp
  show ?thesis using generate_response_llm_failure [OF h] by simp
qed

end
